theory Spec2Isabelle
  imports Complex_Main
begin

section \<open>Python strings\<close>

text \<open>
  A Python \<^verbatim>\<open>str\<close> is a sequence of Unicode code points, so a character is
  modelled by its code point and a string by the list of them.  \<open>lit\<close> embeds
  an ASCII literal of the source.
\<close>

type_synonym pychar = nat
type_synonym pystr = "pychar list"

definition ord :: "char \<Rightarrow> pychar" where
  "ord c = of_char c"

definition lit :: "string \<Rightarrow> pystr" where
  "lit s = map ord s"

text \<open>\<^verbatim>\<open>s.startswith(p)\<close>, that is \<^verbatim>\<open>s[:len(p)] == p\<close>.\<close>

definition startswith :: "pystr \<Rightarrow> pystr \<Rightarrow> bool" where
  "startswith s p = (take (length p) s = p)"

text \<open>\<^verbatim>\<open>string.whitespace\<close>: space, tab, line feed, carriage return,
  vertical tab, form feed.\<close>

definition whitespace :: pystr where
  "whitespace = [32, 9, 10, 13, 11, 12]"

text \<open>The byte-order mark, U+FEFF.\<close>

definition BOM :: pychar where
  "BOM = 65279"


section \<open>parser.py: tokens and the tokenizer\<close>

datatype TokenType =
  close_array | close_paren | comment | illegal | open_array | open_paren
  | trailing_whitespace

text \<open>
  \<^verbatim>\<open>Token(token_type, token_string=None, text=None)\<close>: the fields
  \<^verbatim>\<open>type\<close>, \<^verbatim>\<open>string\<close> and \<^verbatim>\<open>text\<close>; the last two default to
  \<^verbatim>\<open>None\<close>.
\<close>

datatype Token =
  Token (tok_type: TokenType) (tok_string: "pystr option") (tok_text: "pystr option")

text \<open>The dictionary \<^verbatim>\<open>symbols\<close>, in insertion order.\<close>

definition symbols :: "(pystr \<times> TokenType) list" where
  "symbols =
     [(lit ''('', open_paren), (lit '')'', close_paren),
      (lit ''['', open_array), (lit '']'', close_array)]"

text \<open>
  \<^verbatim>\<open>sorted(symbols.items(), key=lambda pair: -len(pair[0]))\<close>: a stable sort
  by descending length of the symbol.
\<close>

definition sorted_symbols :: "(pystr \<times> TokenType) list" where
  "sorted_symbols = sort_key (\<lambda>pair. - int (length (fst pair))) symbols"

text \<open>
  The inner loop of the comment branch: it moves characters from
  \<^verbatim>\<open>rest_string\<close> to \<^verbatim>\<open>comment\<close> until a line feed or the end of the
  text, and returns both.
\<close>

fun comment_loop :: "pystr \<Rightarrow> pystr \<Rightarrow> pystr \<times> pystr" where
  "comment_loop [] cmt = (cmt, [])"
| "comment_loop (c # rest_string) cmt =
     (if c = 10 then (cmt, c # rest_string)
      else comment_loop rest_string (cmt @ [c]))"

lemma comment_loop_length:
  "length (snd (comment_loop rest_string cmt)) \<le> length rest_string"
  by (induction rest_string arbitrary: cmt) (auto intro: le_SucI)

lemma comment_loop_append:
  "comment_loop rest_string cmt = (cmt', rest') \<Longrightarrow> cmt' @ rest' = cmt @ rest_string"
  by (induction rest_string arbitrary: cmt) (auto split: if_splits)

lemma sorted_symbols_set: "set sorted_symbols = set symbols"
  by (simp add: sorted_symbols_def)

lemma sorted_symbols_nonempty:
  assumes "find P sorted_symbols = Some (symbol, token_type)"
  shows "length symbol = 1"
proof -
  from assms have "(symbol, token_type) \<in> set sorted_symbols"
    by (auto simp: find_Some_iff in_set_conv_nth)
  then have "(symbol, token_type) \<in> set symbols"
    by (simp add: sorted_symbols_set)
  then show ?thesis
    by (auto simp: symbols_def lit_def)
qed

text \<open>
  The \<^verbatim>\<open>while len(rest_string)\<close> loop of \<^verbatim>\<open>tokenize\<close> together with the
  final \<^verbatim>\<open>trailing_whitespace\<close> token, as the list of the tokens the
  generator yields.  The state is \<^verbatim>\<open>whitespace_prefix\<close> and
  \<^verbatim>\<open>rest_string\<close>.  The test \<^verbatim>\<open>any(rest_string.startswith(symbol) ...)\<close>
  and the \<^verbatim>\<open>for\<close> loop that breaks at the first symbol (in sorted order)
  the text starts with are one \<open>find\<close>.
\<close>

function tokenize_loop :: "pystr \<Rightarrow> pystr \<Rightarrow> Token list" where
  "tokenize_loop whitespace_prefix [] =
     (if whitespace_prefix \<noteq> []
      then [Token trailing_whitespace (Some whitespace_prefix) None]
      else [])"
| "tokenize_loop whitespace_prefix (c # rest) =
     (if c \<in> set whitespace then tokenize_loop (whitespace_prefix @ [c]) rest
      else if c = ord CHR ''#'' then
        (case comment_loop rest [] of
           (cmt, rest') \<Rightarrow>
             Token comment (Some (whitespace_prefix @ lit ''#'' @ cmt)) (Some cmt)
               # tokenize_loop [] rest')
      else
        (case find (\<lambda>(symbol, token_type). startswith (c # rest) symbol) sorted_symbols of
           Some (symbol, token_type) \<Rightarrow>
             Token token_type (Some (whitespace_prefix @ take (length symbol) (c # rest))) None
               # tokenize_loop [] (drop (length symbol) (c # rest))
         | None \<Rightarrow>
             [Token illegal (Some (whitespace_prefix @ c # rest)) (Some (c # rest))]))"
  by pat_completeness auto
termination
proof (relation "measure (\<lambda>(whitespace_prefix, rest_string). length rest_string)")
  show "wf (measure (\<lambda>(whitespace_prefix, rest_string). length rest_string))"
    by simp
next
  fix whitespace_prefix :: pystr and c :: pychar and rest :: pystr
  show "((whitespace_prefix @ [c], rest), (whitespace_prefix, c # rest))
          \<in> measure (\<lambda>(whitespace_prefix, rest_string). length rest_string)"
    by simp
next
  fix whitespace_prefix :: pystr and c :: pychar and rest x y :: pystr
  assume "(x, y) = comment_loop rest []"
  then have "y = snd (comment_loop rest [])"
    by (metis snd_conv)
  then have "length y \<le> length rest"
    by (simp add: comment_loop_length)
  then show "(([], y), (whitespace_prefix, c # rest))
          \<in> measure (\<lambda>(whitespace_prefix, rest_string). length rest_string)"
    by simp
next
  fix whitespace_prefix :: pystr and c :: pychar and rest :: pystr
    and x2 :: "pystr \<times> TokenType" and x :: pystr and y :: TokenType
  assume "find (\<lambda>(symbol, token_type). startswith (c # rest) symbol) sorted_symbols = Some x2"
    and "(x, y) = x2"
  then have "length x = 1"
    using sorted_symbols_nonempty by metis
  then show "(([], drop (length x) (c # rest)), (whitespace_prefix, c # rest))
          \<in> measure (\<lambda>(whitespace_prefix, rest_string). length rest_string)"
    by simp
qed

text \<open>
  \<^verbatim>\<open>tokenize(jqsh_string)\<close> for a \<^verbatim>\<open>str\<close> argument: a leading byte-order
  mark starts the whitespace prefix.
\<close>

definition tokenize :: "pystr \<Rightarrow> Token list" where
  "tokenize jqsh_string =
     (if startswith jqsh_string [BOM]
      then tokenize_loop [hd jqsh_string] (tl jqsh_string)
      else tokenize_loop [] jqsh_string)"

text \<open>
  \<^verbatim>\<open>''.join(token.string for token in tokens)\<close>; joining fails (\<open>None\<close>)
  when a token has no string.
\<close>

fun joined :: "Token list \<Rightarrow> pystr option" where
  "joined [] = Some []"
| "joined (t # ts) =
     (case tok_string t of
        None \<Rightarrow> None
      | Some s \<Rightarrow> map_option ((@) s) (joined ts))"


section \<open>filter.py: the filter tree\<close>

text \<open>
  One constructor per class of \<^verbatim>\<open>filter.py\<close>, with the attributes its
  \<^verbatim>\<open>__init__\<close> stores.  \<open>Filter\<close> is the base class (the empty filter).
  \<^verbatim>\<open>Conditional\<close> and \<^verbatim>\<open>Try\<close> hold their list of
  (clause name, clause filter) pairs; \<^verbatim>\<open>Apply\<close> holds its attribute list
  and its \<^verbatim>\<open>variadic_form\<close> flag; \<^verbatim>\<open>NumberLiteral\<close> holds
  \<^verbatim>\<open>number_string\<close> and the number.
\<close>

datatype Filter =
    Filter
  | Parens Filter
  | Array Filter
  | Object Filter
  | Conditional "(pystr \<times> Filter) list"
  | Try "(pystr \<times> Filter) list"
  | Name pystr
  | NumberLiteral pystr rat
  | StringLiteral pystr
  | Pipe Filter Filter
  | Add Filter Filter
  | Apply "Filter list" bool
  | Assign Filter Filter
  | Comma Filter Filter
  | Multiply Filter Filter
  | Pair_filter Filter Filter
  | Semicolon Filter Filter
  | Command Filter
  | GlobalVariable Filter


section \<open>Values\<close>

text \<open>The Python exceptions the modelled code raises or catches.\<close>

datatype py_exception =
  NotImplementedError | UnboundLocalError | TypeError | ValueError | KeyError
  | StopIteration

text \<open>
  The key of a function vector in the builtin table: a number of arguments or
  the string \<^verbatim>\<open>'varargs'\<close>.
\<close>

datatype arity = Args nat | varargs

text \<open>The keyword arguments an exception value is created with.\<close>

datatype kwarg =
    KwString pystr
  | KwInt int
  | KwArities "arity set"
  | KwFilter Filter
  | KwException py_exception

text \<open>
  Modelled from the spec: the module \<^verbatim>\<open>jqsh.values\<close> is not among the
  sources.  The value variants are those of section 3 of the specification
  (a number is an exact decimal, here a rational; an object is an
  insertion-ordered mapping, here an association list), and
  \<^verbatim>\<open>JQSHException(name, **kwargs)\<close> carries its symbolic kind and its
  keyword arguments.
\<close>

datatype Value =
    Null
  | Boolean bool
  | Number rat
  | String pystr
  | values_Array "Value list"
  | values_Object "(Value \<times> Value) list"
  | JQSHException (exc_name: pystr) (exc_kwargs: "(pystr \<times> kwarg) list")

text \<open>\<^verbatim>\<open>isinstance(value, jqsh.values.JQSHException)\<close>\<close>

fun is_exception :: "Value \<Rightarrow> bool" where
  "is_exception (JQSHException n kw) = True"
| "is_exception v = False"


section \<open>Channels\<close>

text \<open>
  Modelled from the spec: the module \<^verbatim>\<open>jqsh.channel\<close> is not among the
  sources.  Following section 4.1 of the specification, a channel is the
  ordered sequence of the values pushed so far, a termination mark and the
  scope metadata (the two namespaces, each mapping a name to its captured
  value sequence).  \<open>push\<close> fails on a terminated channel, terminating twice
  is a contract violation, and \<open>throw\<close> is \<open>push\<close> followed by
  \<open>terminate\<close>.
\<close>

type_synonym namespace = "pystr \<rightharpoonup> Value list"

record Channel =
  store :: "Value list"
  terminated :: bool
  local_namespace :: namespace
  global_namespace :: namespace

datatype contract_violation = PushAfterTerminate | DoubleTerminate

definition push :: "Value \<Rightarrow> Channel \<Rightarrow> contract_violation + Channel" where
  "push v c =
     (if terminated c then Inl PushAfterTerminate
      else Inr (c\<lparr>store := store c @ [v]\<rparr>))"

definition terminate :: "Channel \<Rightarrow> contract_violation + Channel" where
  "terminate c =
     (if terminated c then Inl DoubleTerminate
      else Inr (c\<lparr>terminated := True\<rparr>))"

text \<open>
  The operations one worker performs on a channel, in program order.
\<close>

datatype chan_op = Push Value | Terminate

definition throw :: "Value \<Rightarrow> chan_op list" where
  "throw v = [Push v, Terminate]"

text \<open>
  The channel after a sequence of operations; the first contract violation
  ends the run.
\<close>

fun perform :: "chan_op list \<Rightarrow> Channel \<Rightarrow> contract_violation + Channel" where
  "perform [] c = Inr c"
| "perform (Push v # ops) c =
     (case push v c of Inl err \<Rightarrow> Inl err | Inr c' \<Rightarrow> perform ops c')"
| "perform (Terminate # ops) c =
     (case terminate c of Inl err \<Rightarrow> Inl err | Inr c' \<Rightarrow> perform ops c')"

text \<open>
  Two workers that operate on the same channel concurrently: every order
  of their operations that keeps each worker's program order.
\<close>

fun interleavings :: "'a list \<Rightarrow> 'a list \<Rightarrow> 'a list list" where
  "interleavings [] ys = [ys]"
| "interleavings xs [] = [xs]"
| "interleavings (x # xs) (y # ys) =
     map ((#) x) (interleavings xs (y # ys)) @ map ((#) y) (interleavings (x # xs) ys)"

text \<open>
  The new, empty channel \<^verbatim>\<open>Channel()\<close>, with the namespaces that a
  \<^verbatim>\<open>push_namespaces\<close> worker copies to it from the input channel.
\<close>

definition new_channel :: "Channel \<Rightarrow> Channel" where
  "new_channel input_channel =
     \<lparr>store = [], terminated = False,
      local_namespace = local_namespace input_channel,
      global_namespace = global_namespace input_channel\<rparr>"


section \<open>filter.py: the generic worker, \<^verbatim>\<open>Filter.run_raw\<close>\<close>

text \<open>
  A run of a generator: it yields a value and goes on, returns, or raises.
\<close>

datatype 'a gen = Return | Yield 'a "'a gen" | Raise py_exception

text \<open>\<^verbatim>\<open>yield from xs\<close>, followed by the rest of the generator.\<close>

fun yield_from :: "'a list \<Rightarrow> 'a gen \<Rightarrow> 'a gen" where
  "yield_from [] g = g"
| "yield_from (x # xs) g = Yield x (yield_from xs g)"


text \<open>
  The exception value that the \<^verbatim>\<open>except Exception as e\<close> clause of
  \<^verbatim>\<open>run_thread\<close> builds (its \<^verbatim>\<open>exc_info\<close> and
  \<^verbatim>\<open>traceback_string\<close> describe the same Python exception).
\<close>

definition internal :: "py_exception \<Rightarrow> Value" where
  "internal e = JQSHException (lit ''internal'') [(lit ''python_exception'', KwException e)]"

text \<open>
  The helper thread \<^verbatim>\<open>run_thread\<close>: its operations on the output
  channel, for the generator run that \<^verbatim>\<open>self.run(input_channel=bridge)\<close>
  makes.  Every yielded value is pushed; after pushing an exception value
  the loop breaks; a Python exception raised by the generator is thrown
  as an \<^verbatim>\<open>internal\<close> exception value.
\<close>

fun run_thread :: "Value gen \<Rightarrow> chan_op list" where
  "run_thread Return = []"
| "run_thread (Yield v g) = Push v # (if is_exception v then [] else run_thread g)"
| "run_thread (Raise e) = throw (internal e)"

text \<open>
  The loop \<^verbatim>\<open>for value in input_channel\<close> of \<^verbatim>\<open>run_raw\<close>: the values
  it draws from the input and pushes to the bridge channel, and its
  operations on the output channel.
\<close>

fun feed_bridge :: "Value list \<Rightarrow> Value list \<times> chan_op list" where
  "feed_bridge [] = ([], [])"
| "feed_bridge (v # input) =
     (if is_exception v then ([v], throw v)
      else (case feed_bridge input of (bridge, ops) \<Rightarrow> (v # bridge, ops)))"

text \<open>
  \<^verbatim>\<open>Filter.run_raw\<close>, for a filter whose \<^verbatim>\<open>run\<close> is the first
  argument.  The calling thread feeds the bridge while the helper thread
  runs; the helper is joined before the final
  \<^verbatim>\<open>output_channel.terminate()\<close>.  The result lists the output channel at
  the end of the run for every order in which the operations of the two
  threads can reach it.
\<close>

definition run_raw ::
  "(Channel \<Rightarrow> Value gen) \<Rightarrow> Channel \<Rightarrow> (contract_violation + Channel) list" where
  "run_raw run input_channel =
     (case feed_bridge (store input_channel) of
        (bridge, main_ops) \<Rightarrow>
          let bridge_channel = input_channel\<lparr>store := bridge, terminated := True\<rparr>;
              helper_ops = run_thread (run bridge_channel)
          in map (\<lambda>ops. perform (ops @ [Terminate]) (new_channel input_channel))
               (interleavings main_ops helper_ops))"



text \<open>\<^verbatim>\<open>Filter.run\<close> of the base class: the empty generator.\<close>

definition Filter_run :: "Channel \<Rightarrow> Value gen" where
  "Filter_run input_channel = Return"


section \<open>filter.py: the object literal, \<^verbatim>\<open>Object.run\<close>\<close>







section \<open>filter.py: \<^verbatim>\<open>Operator.output_pairs\<close>, \<^verbatim>\<open>Add.run\<close> and \<^verbatim>\<open>Multiply.run\<close>\<close>












section \<open>functions.py: the builtin table and \<^verbatim>\<open>get_builtin\<close>\<close>

text \<open>
  A registered builtin is called with its argument filters, the input
  channel and the output channel; it is modelled by its operations on the
  output channel.  \<^verbatim>\<open>builtin_functions\<close> maps a name to a function vector,
  which maps an arity to a builtin.
\<close>

type_synonym builtin = "Filter list \<Rightarrow> Channel \<Rightarrow> chan_op list"
type_synonym function_vector = "arity \<rightharpoonup> builtin"
type_synonym catalog = "pystr \<rightharpoonup> function_vector"

text \<open>
  \<^verbatim>\<open>get_builtin(name, *args, num_args=None)\<close>, with \<open>num_args\<close> the number
  of arguments.  \<^verbatim>\<open>function_vector['varargs']\<close> raises \<^verbatim>\<open>KeyError\<close> when
  the vector has no such entry.
\<close>

definition get_builtin :: "catalog \<Rightarrow> pystr \<Rightarrow> nat \<Rightarrow> py_exception + builtin" where
  "get_builtin builtin_functions name num_args =
     (case builtin_functions name of
        Some function_vector \<Rightarrow>
          (case function_vector (Args num_args) of
             Some f \<Rightarrow> Inr f
           | None \<Rightarrow>
               (case function_vector varargs of
                  Some f \<Rightarrow> Inr f
                | None \<Rightarrow> Inl KeyError))
      | None \<Rightarrow> Inl KeyError)"


section \<open>filter.py: \<^verbatim>\<open>Name.run_raw\<close>\<close>

text \<open>
  \<^verbatim>\<open>Name.run_raw\<close>: the operations on the output channel.
  Modelled from the spec: \<^verbatim>\<open>input_channel.context.get_builtin\<close> belongs to
  a module that is not among the sources; by section 4.3 of the
  specification it looks the name up in the builtin catalog, which is
  \<^verbatim>\<open>get_builtin\<close> of \<^verbatim>\<open>functions.py\<close> on the table
  \<^verbatim>\<open>builtin_functions\<close>.
\<close>

definition Name_run_raw :: "catalog \<Rightarrow> pystr \<Rightarrow> Channel \<Rightarrow> chan_op list" where
  "Name_run_raw builtin_functions name input_channel =
     (case local_namespace input_channel name of
        Some var \<Rightarrow> map Push var @ [Terminate]
      | None \<Rightarrow>
          (case get_builtin builtin_functions name 0 of
             Inl e \<Rightarrow>
               throw
                 (case builtin_functions name of
                    Some function_vector \<Rightarrow>
                      JQSHException (lit ''numArgs'')
                        [(lit ''function_name'', KwString name),
                         (lit ''expected'', KwArities (dom function_vector)),
                         (lit ''received'', KwInt 0)]
                  | None \<Rightarrow>
                      JQSHException (lit ''name'') [(lit ''missing_name'', KwString name)])
           | Inr builtin \<Rightarrow> builtin [] input_channel))"


section \<open>filter.py: \<^verbatim>\<open>sensible_string\<close> and \<^verbatim>\<open>Try.run\<close>\<close>

text \<open>
  \<^verbatim>\<open>Filter.sensible_string\<close> takes the first value of the filter's output
  and expects a string; \<^verbatim>\<open>Name\<close> overrides it by its name.
\<close>

fun sensible_string ::
  "(Filter \<Rightarrow> Channel \<Rightarrow> Value list) \<Rightarrow> Filter \<Rightarrow> Channel \<Rightarrow> py_exception + pystr" where
  "sensible_string start (Name name) input_channel = Inr name"
| "sensible_string start f input_channel =
     (case start f input_channel of
        [] \<Rightarrow> Inl StopIteration
      | ret # _ \<Rightarrow> (case ret of String s \<Rightarrow> Inr s | _ \<Rightarrow> Inl TypeError))"

text \<open>The local variables that the clause loop of \<^verbatim>\<open>Try.run\<close> sets.\<close>

record try_clauses =
  exception_handlers :: "pystr \<rightharpoonup> Filter"
  default_handler :: "Filter option"
  else_handler :: "Filter option"
  exception_names :: "pystr list"
  try_block :: "Filter option"

definition no_clauses :: try_clauses where
  "no_clauses =
     \<lparr>exception_handlers = Map.empty, default_handler = None, else_handler = None,
      exception_names = [], try_block = None\<rparr>"

text \<open>
  The loop \<^verbatim>\<open>for attribute_name, attribute_value in self.attributes\<close>.
  \<open>Inl\<close> is the generator run when the loop ends the generator (a
  \<^verbatim>\<open>catch\<close> clause whose name is not a sensible string yields a
  \<^verbatim>\<open>sensibleString\<close> exception and returns).
\<close>

fun Try_clauses ::
  "(Filter \<Rightarrow> Channel \<Rightarrow> Value list) \<Rightarrow> (pystr \<times> Filter) list \<Rightarrow> Channel \<Rightarrow> try_clauses
     \<Rightarrow> Value gen + try_clauses" where
  "Try_clauses start [] input_channel st = Inr st"
| "Try_clauses start ((attribute_name, attribute_value) # attributes) input_channel st =
     (if attribute_name = lit ''try'' then
        Try_clauses start attributes input_channel (st\<lparr>try_block := Some attribute_value\<rparr>)
      else if attribute_name = lit ''catch'' then
        (case sensible_string start attribute_value input_channel of
           Inr exception_name \<Rightarrow>
             Try_clauses start attributes input_channel
               (st\<lparr>exception_names := exception_names st @ [exception_name]\<rparr>)
         | Inl e \<Rightarrow>
             (if e = StopIteration \<or> e = TypeError
              then Inl (Yield (JQSHException (lit ''sensibleString'') []) Return)
              else Inl (Raise e)))
      else if attribute_name = lit ''then'' then
        Try_clauses start attributes input_channel
          (st\<lparr>exception_handlers :=
                foldl (\<lambda>handlers exception_name. handlers(exception_name \<mapsto> attribute_value))
                  (exception_handlers st) (exception_names st)\<rparr>)
      else if attribute_name = lit ''except'' then
        Try_clauses start attributes input_channel (st\<lparr>default_handler := Some attribute_value\<rparr>)
      else if attribute_name = lit ''else'' then
        Try_clauses start attributes input_channel (st\<lparr>else_handler := Some attribute_value\<rparr>)
      else Try_clauses start attributes input_channel st)"

text \<open>
  \<^verbatim>\<open>Try.run\<close>.  The loop over \<^verbatim>\<open>try_output\<close> stops at the first
  exception value, which is \<open>find is_exception\<close>.  A \<^verbatim>\<open>Try\<close> without a
  \<^verbatim>\<open>try\<close> clause reads the unbound variable \<^verbatim>\<open>try_block\<close>.
\<close>

definition Try_run ::
  "(Filter \<Rightarrow> Channel \<Rightarrow> Value list) \<Rightarrow> (pystr \<times> Filter) list \<Rightarrow> Channel \<Rightarrow> Value gen" where
  "Try_run start attributes input_channel =
     (case Try_clauses start attributes input_channel no_clauses of
        Inl g \<Rightarrow> g
      | Inr st \<Rightarrow>
          (case try_block st of
             None \<Rightarrow> Raise UnboundLocalError
           | Some block \<Rightarrow>
               let try_output = start block input_channel in
               (case find is_exception try_output of
                  Some v \<Rightarrow>
                    (case exception_handlers st (exc_name v) of
                       Some handler \<Rightarrow> yield_from (start handler input_channel) Return
                     | None \<Rightarrow>
                         (case default_handler st of
                            Some handler \<Rightarrow> yield_from (start handler input_channel) Return
                          | None \<Rightarrow> Yield v Return))
                | None \<Rightarrow>
                    (case else_handler st of
                       None \<Rightarrow> yield_from try_output Return
                     | Some handler \<Rightarrow> yield_from (start handler input_channel) Return))))"


section \<open>filter.py: \<^verbatim>\<open>Assign.run_raw\<close> and the \<^verbatim>\<open>assign\<close> methods\<close>

text \<open>
  What an assignment does to its output channel.  The worker
  \<^verbatim>\<open>handle_values\<close> runs \<^verbatim>\<open>output_channel.pull(input_channel)\<close>
  concurrently with the assigning thread; the namespaces are attributes
  that are set on the output channel (\<open>None\<close>: not set).

  Modelled from the spec: \<^verbatim>\<open>pull\<close> belongs to \<^verbatim>\<open>jqsh.channel\<close>; it
  forwards every value of the other channel into this channel and then
  terminates this channel.
\<close>

record assign_effect =
  values_worker :: "chan_op list"
  assigning_thread :: "chan_op list"
  new_local_namespace :: "namespace option"
  new_global_namespace :: "namespace option"

definition pull :: "Channel \<Rightarrow> chan_op list" where
  "pull from_channel = map Push (store from_channel) @ [Terminate]"

text \<open>\<^verbatim>\<open>Name.assign\<close>; \<open>var\<close> is \<^verbatim>\<open>list(value_channel)\<close>.\<close>

definition Name_assign :: "pystr \<Rightarrow> Value list \<Rightarrow> Channel \<Rightarrow> assign_effect" where
  "Name_assign name var input_channel =
     (case find is_exception var of
        Some v \<Rightarrow>
          \<lparr>values_worker = pull input_channel,
           assigning_thread = throw v @ [Terminate],
           new_local_namespace = Some (local_namespace input_channel),
           new_global_namespace = Some (global_namespace input_channel)\<rparr>
      | None \<Rightarrow>
          \<lparr>values_worker = pull input_channel,
           assigning_thread = [Terminate],
           new_local_namespace = Some ((local_namespace input_channel)(name \<mapsto> var)),
           new_global_namespace = Some (global_namespace input_channel)\<rparr>)"

text \<open>
  \<^verbatim>\<open>GlobalVariable.assign\<close>.  The value channel is drained only when the
  variable name is a sensible string; \<^verbatim>\<open>throw('sensibleString')\<close> throws
  the exception value of that kind.
\<close>

definition GlobalVariable_assign ::
  "(Filter \<Rightarrow> Channel \<Rightarrow> Value list) \<Rightarrow> Filter \<Rightarrow> Value list \<Rightarrow> Channel \<Rightarrow> assign_effect" where
  "GlobalVariable_assign start attribute var input_channel =
     (case sensible_string start attribute input_channel of
        Inl e \<Rightarrow>
          \<lparr>values_worker = pull input_channel,
           assigning_thread = throw (JQSHException (lit ''sensibleString'') []) @ [Terminate],
           new_local_namespace = Some (local_namespace input_channel),
           new_global_namespace = Some (global_namespace input_channel)\<rparr>
      | Inr variable_name \<Rightarrow>
          (case find is_exception var of
             Some v \<Rightarrow>
               \<lparr>values_worker = pull input_channel,
                assigning_thread = throw v @ [Terminate],
                new_local_namespace = Some (local_namespace input_channel),
                new_global_namespace = Some (global_namespace input_channel)\<rparr>
           | None \<Rightarrow>
               \<lparr>values_worker = pull input_channel,
                assigning_thread = [Terminate],
                new_local_namespace = Some (local_namespace input_channel),
                new_global_namespace =
                  Some ((global_namespace input_channel)(variable_name \<mapsto> var))\<rparr>))"

text \<open>
  \<^verbatim>\<open>Assign.run_raw\<close>: the \<^verbatim>\<open>assign\<close> method of the left operand is
  called with the output of the right operand; \<^verbatim>\<open>Filter.assign\<close>, which
  every class but \<^verbatim>\<open>Name\<close> and \<^verbatim>\<open>GlobalVariable\<close> inherits, raises
  \<^verbatim>\<open>NotImplementedError\<close>, which is caught here.
\<close>

fun Assign_run_raw ::
  "(Filter \<Rightarrow> Channel \<Rightarrow> Value list) \<Rightarrow> Filter \<Rightarrow> Filter \<Rightarrow> Channel \<Rightarrow> assign_effect" where
  "Assign_run_raw start (Name name) right_operand input_channel =
     Name_assign name (start right_operand input_channel) input_channel"
| "Assign_run_raw start (GlobalVariable attribute) right_operand input_channel =
     GlobalVariable_assign start attribute (start right_operand input_channel) input_channel"
| "Assign_run_raw start left_operand right_operand input_channel =
     \<lparr>values_worker = [],
      assigning_thread =
        throw (JQSHException (lit ''assignment'') [(lit ''target_filter'', KwFilter left_operand)]),
      new_local_namespace = None,
      new_global_namespace = None\<rparr>"


section \<open>Inputs used in the examples\<close>

text \<open>
  \<^verbatim>\<open>Channel(terminated=True)\<close>, the input channel a \<^verbatim>\<open>FilterThread\<close>
  gets when none is given.
\<close>

definition terminated_channel :: Channel where
  "terminated_channel =
     \<lparr>store = [], terminated = True, local_namespace = Map.empty, global_namespace = Map.empty\<rparr>"





section \<open>What the claims say of an object literal\<close>





section \<open>What the claims say of a bare name\<close>

text \<open>The zero-arity builtin of a name in a catalog, if there is one.\<close>

definition zero_arity :: "catalog \<Rightarrow> pystr \<Rightarrow> builtin option" where
  "zero_arity builtin_functions name =
     (case builtin_functions name of
        None \<Rightarrow> None
      | Some function_vector \<Rightarrow> function_vector (Args 0))"

text \<open>
  A catalog in which \<^verbatim>\<open>foo\<close> is registered as a variadic builtin only
  (\<^verbatim>\<open>def_builtin\<close> applied to the function itself), a builtin that
  terminates its output channel at once.
\<close>

definition variadic_catalog :: catalog where
  "variadic_catalog = [lit ''foo'' \<mapsto> [varargs \<mapsto> (\<lambda>args input_channel. [Terminate])]]"


section \<open>Properties of the tokenizer\<close>

lemma joined_tokenize_loop:
  "joined (tokenize_loop whitespace_prefix rest_string) = Some (whitespace_prefix @ rest_string)"
proof (induction whitespace_prefix rest_string rule: tokenize_loop.induct)
  case (1 whitespace_prefix)
  show ?case by simp
next
  case (2 whitespace_prefix c rest)
  show ?case
  proof (cases "c \<in> set whitespace")
    case True
    with 2 show ?thesis by simp
  next
    case ws: False
    show ?thesis
    proof (cases "c = ord CHR ''#''")
      case True
      obtain cmt rest' where cl: "comment_loop rest [] = (cmt, rest')"
        by (cases "comment_loop rest []")
      from comment_loop_append [OF cl] have "cmt @ rest' = rest" by simp
      moreover from 2(2) [OF ws True cl [symmetric]]
      have "joined (tokenize_loop [] rest') = Some rest'" by simp
      ultimately show ?thesis
        using ws True cl by (simp add: lit_def)
    next
      case hash: False
      show ?thesis
      proof (cases "find (\<lambda>(symbol, token_type). startswith (c # rest) symbol) sorted_symbols")
        case None
        with ws hash show ?thesis by simp
      next
        case (Some x2)
        obtain symbol token_type where x2: "x2 = (symbol, token_type)"
          by (cases x2)
        from 2(3) [OF ws hash Some x2 [symmetric]]
        have "joined (tokenize_loop [] (drop (length symbol) (c # rest)))
                = Some (drop (length symbol) (c # rest))"
          by simp
        with ws hash Some x2 show ?thesis by simp
      qed
    qed
  qed
qed

text \<open>
  Claim C10.  For every input string, \<open>tokenize\<close> returns a (finite) list of
  tokens, each of which carries a string, and the concatenation of these
  strings in order is the input text itself: nothing is dropped, neither
  a leading byte-order mark, nor whitespace, nor the text from the first
  unrecognised character on.
\<close>

theorem tokenize_preserves_text:
  "joined (tokenize jqsh_string) = Some jqsh_string"
proof (cases "startswith jqsh_string [BOM]")
  case True
  then have "jqsh_string \<noteq> []"
    by (auto simp: startswith_def)
  then have "[hd jqsh_string] @ tl jqsh_string = jqsh_string"
    by simp
  with True show ?thesis
    by (simp add: tokenize_def joined_tokenize_loop)
next
  case False
  then show ?thesis
    by (simp add: tokenize_def joined_tokenize_loop)
qed


section \<open>Properties of the generic worker\<close>




lemma run_thread_no_exception:
  "\<forall>v \<in> set vs. \<not> is_exception v
     \<Longrightarrow> run_thread (yield_from vs g) = map Push vs @ run_thread g"
  by (induction vs) auto






text \<open>
  Claim C2, at two inputs where the code departs from it.  A \<^verbatim>\<open>Try\<close>
  filter without a \<^verbatim>\<open>try\<close> clause raises inside \<^verbatim>\<open>run\<close>; the helper
  thread throws the \<^verbatim>\<open>internal\<close> exception, which terminates the output
  channel, and the final \<^verbatim>\<open>output_channel.terminate()\<close> of the calling
  thread terminates it a second time.  The same happens for the empty
  filter when the input channel holds an exception value: the calling
  thread throws it, and terminates again after the join.
\<close>

theorem run_raw_terminates_twice:
  "run_raw (Try_run start []) terminated_channel = [Inl DoubleTerminate]
   \<and> run_raw Filter_run (terminated_channel\<lparr>store := [JQSHException (lit ''type'') []]\<rparr>)
       = [Inl DoubleTerminate]"
  by (simp add: run_raw_def terminated_channel_def new_channel_def throw_def push_def
        terminate_def Try_run_def no_clauses_def Filter_run_def)


section \<open>Properties of \<^verbatim>\<open>Add\<close> and \<^verbatim>\<open>Multiply\<close>\<close>





section \<open>Properties of the object literal\<close>










section \<open>Properties of name resolution\<close>

text \<open>
  Claim C6 fails on the code.  The name \<^verbatim>\<open>foo\<close> is not bound in the
  local namespace and the catalog has no zero-arity builtin \<^verbatim>\<open>foo\<close>, only
  a variadic one.  The claim asks for exactly one exception value (of kind
  \<^verbatim>\<open>numArgs\<close>); the code calls the variadic builtin, and no exception is
  pushed.
\<close>

theorem Name_variadic_fallback:
  "local_namespace terminated_channel (lit ''foo'') = None
   \<and> zero_arity variadic_catalog (lit ''foo'') = None
   \<and> Name_run_raw variadic_catalog (lit ''foo'') terminated_channel = [Terminate]"
  by (simp add: terminated_channel_def zero_arity_def variadic_catalog_def Name_run_raw_def
        get_builtin_def)

text \<open>
  Claim C6 as amended.  \<^verbatim>\<open>Name.run_raw\<close> on an input channel:

  \<^item> a name bound in the local namespace replays its whole captured
    sequence, in order, and terminates;
  \<^item> otherwise, a zero-arity builtin of that name is called;
  \<^item> otherwise, a variadic builtin of that name is called;
  \<^item> otherwise exactly one exception value is thrown and nothing else: of
    kind \<^verbatim>\<open>numArgs\<close> when the name is in the catalog (at other arities
    only), of kind \<^verbatim>\<open>name\<close> when it is not.
\<close>

theorem Name_resolution:
  "(local_namespace input_channel name = Some var \<longrightarrow>
      Name_run_raw builtin_functions name input_channel = map Push var @ [Terminate])
   \<and> (local_namespace input_channel name = None \<longrightarrow>
        (builtin_functions name = Some function_vector \<and> function_vector (Args 0) = Some f \<longrightarrow>
           Name_run_raw builtin_functions name input_channel = f [] input_channel)
      \<and> (builtin_functions name = Some function_vector \<and> function_vector (Args 0) = None
           \<and> function_vector varargs = Some f \<longrightarrow>
           Name_run_raw builtin_functions name input_channel = f [] input_channel)
      \<and> (builtin_functions name = Some function_vector \<and> function_vector (Args 0) = None
           \<and> function_vector varargs = None \<longrightarrow>
           Name_run_raw builtin_functions name input_channel =
             [Push (JQSHException (lit ''numArgs'')
                      [(lit ''function_name'', KwString name),
                       (lit ''expected'', KwArities (dom function_vector)),
                       (lit ''received'', KwInt 0)]),
              Terminate])
      \<and> (builtin_functions name = None \<longrightarrow>
           Name_run_raw builtin_functions name input_channel =
             [Push (JQSHException (lit ''name'') [(lit ''missing_name'', KwString name)]),
              Terminate]))"
  by (simp add: Name_run_raw_def get_builtin_def throw_def)

theorem Name_resolution_witness:
  "Name_run_raw variadic_catalog (lit ''foo'') terminated_channel = [Terminate]
   \<and> Name_run_raw variadic_catalog (lit ''bar'') terminated_channel =
        [Push (JQSHException (lit ''name'') [(lit ''missing_name'', KwString (lit ''bar''))]),
         Terminate]
   \<and> Name_run_raw variadic_catalog (lit ''x'')
        (terminated_channel\<lparr>local_namespace := [lit ''x'' \<mapsto> [Number 1, Number 2]]\<rparr>)
       = [Push (Number 1), Push (Number 2), Terminate]"
  using Name_resolution [of terminated_channel "lit ''foo''" undefined variadic_catalog
              "[varargs \<mapsto> (\<lambda>args input_channel. [Terminate])]"
              "\<lambda>args input_channel. [Terminate]"]
        Name_resolution [of terminated_channel "lit ''bar''" undefined variadic_catalog
              undefined undefined]
        Name_resolution
          [of "terminated_channel\<lparr>local_namespace := [lit ''x'' \<mapsto> [Number 1, Number 2]]\<rparr>"
              "lit ''x''" "[Number 1, Number 2]" variadic_catalog undefined undefined]
  by (simp add: terminated_channel_def variadic_catalog_def lit_def ord_def)

end
